theory Spec2Isabelle
  imports Complex_Main "HOL-Library.Word"
begin

section \<open>Files and the positional read\<close>

text \<open>
  The program reads three pseudo-files through file descriptors that stay open for
  the whole run.  An open file is modelled by what a read of it can observe: its
  current bytes, the file offset of the descriptor, the error (an \<open>errno\<close> value)
  with which a read fails at the moment, if any, and the largest number of bytes
  the kernel hands over in one call (a read may be short).  Bytes are \<open>char\<close>s,
  so a buffer is a \<open>string\<close>; the terminator is \<open>CHR 0x00\<close>.
\<close>

type_synonym size_t = "64 word"

record fdesc =
  content :: string
  pos :: nat
  fault :: "int option"
  short :: nat

definition EINVAL :: int where
  "EINVAL = 22"

definition NUL :: char where
  "NUL = CHR 0x00"

text \<open>
  \<open>pread(fd, buf, count, offset)\<close>: on failure it returns \<open>-1\<close>, sets \<open>errno\<close>
  and transfers nothing; otherwise it copies the bytes found at \<open>offset\<close>, at most
  \<open>count\<close> of them, to the front of the buffer and returns how many.  It neither
  uses nor moves the file offset.  The result is (return value, \<open>errno\<close>, buffer).
\<close>

definition pread :: "fdesc \<Rightarrow> string \<Rightarrow> nat \<Rightarrow> nat \<Rightarrow> int \<Rightarrow> int \<times> int \<times> string" where
  "pread fd buf count offset errno =
     (case fault fd of
        Some e \<Rightarrow> (- 1, e, buf)
      | None \<Rightarrow>
          (let data = take (min count (short fd)) (drop offset (content fd))
           in (int (length data), errno, data @ drop (length data) buf)))"

section \<open>The metric reader \<open>cat\<close>\<close>

text \<open>
  The result of a call: the value returned, \<open>errno\<close> afterwards, the buffer
  afterwards, the indices of the buffer that \<open>pread\<close> filled, the indices that
  \<open>cat\<close> itself stored to, and the \<open>pread\<close> calls issued as (count, offset).
\<close>

record cat_result =
  ret :: int
  errno_after :: int
  buf_after :: string
  filled :: "nat list"
  stores :: "nat list"
  preads :: "(nat \<times> nat) list"

definition cat :: "fdesc \<Rightarrow> string \<Rightarrow> size_t \<Rightarrow> int \<Rightarrow> cat_result" where
  "cat fd buf len errno =
     (if len \<le> 0
      then \<lparr>ret = - 1, errno_after = EINVAL, buf_after = buf,
            filled = [], stores = [], preads = []\<rparr>
      else
        (case pread fd buf (unat (len - 1)) 0 errno of
           (r, e, b) \<Rightarrow>
             if r \<ge> 0
             then \<lparr>ret = r, errno_after = e, buf_after = b[nat r := NUL],
                   filled = [0..<nat r], stores = [nat r],
                   preads = [(unat (len - 1), 0)]\<rparr>
             else \<lparr>ret = r, errno_after = e, buf_after = b,
                   filled = [], stores = [],
                   preads = [(unat (len - 1), 0)]\<rparr>))"

text \<open>A C string held in a buffer: the bytes before the first terminator.\<close>

definition cstr :: "string \<Rightarrow> string" where
  "cstr buf = takeWhile (\<lambda>c. c \<noteq> NUL) buf"

section \<open>Double precision numbers\<close>

text \<open>
  A \<open>double\<close> is a finite number, an infinity or a NaN.  \<open>Finite s m e\<close> stands
  for \<open>(-1)^s * m * 2^e\<close> with \<open>m \<ge> 0\<close>; there are two zeros.  The sign and the
  payload of a NaN are not modelled.
\<close>

datatype double = Finite bool int int | Infinity bool | NaN

definition shl :: "int \<Rightarrow> int \<Rightarrow> int" where
  "shl x k = (if 0 \<le> k then x * 2 ^ nat k else x)"

text \<open>
  The integer nearest to \<open>a / b\<close> for \<open>a \<ge> 0\<close> and \<open>b > 0\<close>, a tie going to the
  even one: from the quotient \<open>d\<close> and the remainder \<open>r\<close> of the division.
\<close>

definition rne_pick :: "int \<Rightarrow> int \<Rightarrow> int \<Rightarrow> int" where
  "rne_pick d r b =
     (if 2 * r < b then d else if b < 2 * r then d + 1
      else if even d then d else d + 1)"

definition rne_frac :: "int \<Rightarrow> int \<Rightarrow> int" where
  "rne_frac a b = rne_pick (a div b) (a mod b) b"

text \<open>The number of binary digits of a positive integer.\<close>

function blen :: "int \<Rightarrow> int" where
  "blen n = (if n \<le> 0 then 0 else 1 + blen (n div 2))"
  by pat_completeness auto
termination
  by (relation "measure nat") auto

declare blen.simps [simp del]

text \<open>
  \<open>ilog2 p q\<close> is the exponent of the binade of \<open>p / q\<close>, for positive \<open>p\<close> and
  \<open>q\<close>: the difference \<open>c\<close> of the lengths, or one less.
\<close>

definition ilog2_at :: "int \<Rightarrow> int \<Rightarrow> int \<Rightarrow> int" where
  "ilog2_at p q c = (if shl q c \<le> shl p (- c) then c else c - 1)"

definition ilog2 :: "int \<Rightarrow> int \<Rightarrow> int" where
  "ilog2 p q = ilog2_at p q (blen p - blen q)"

text \<open>
  Rounding \<open>p / q\<close> to the nearest double (IEEE 754 binary64, ties to even): the
  significand has 53 bits, the least exponent of a unit in the last place is
  \<open>-1074\<close>, and a result of \<open>2^1024\<close> or more is an infinity.
\<close>

definition pack64 :: "bool \<Rightarrow> int \<Rightarrow> int \<Rightarrow> double" where
  "pack64 s n qe = (if 2 ^ nat (1024 - qe) \<le> n then Infinity s else Finite s n qe)"

definition rnd64_at :: "bool \<Rightarrow> int \<Rightarrow> int \<Rightarrow> int \<Rightarrow> double" where
  "rnd64_at s p q qe = pack64 s (rne_frac (shl p (- qe)) (shl q qe)) qe"

definition rnd64 :: "bool \<Rightarrow> int \<Rightarrow> int \<Rightarrow> double" where
  "rnd64 s p q =
     (if p = 0 then Finite s 0 0
      else rnd64_at s p q (max (ilog2 p q) (- 1022) - 52))"

text \<open>The division \<open>x / y\<close> of two doubles.\<close>

fun fdiv :: "double \<Rightarrow> double \<Rightarrow> double" where
  "fdiv NaN y = NaN"
| "fdiv x NaN = NaN"
| "fdiv (Infinity s) (Infinity t) = NaN"
| "fdiv (Infinity s) (Finite t n f) = Infinity (s \<noteq> t)"
| "fdiv (Finite s m e) (Infinity t) = Finite (s \<noteq> t) 0 0"
| "fdiv (Finite s m e) (Finite t n f) =
     (if n = 0 then (if m = 0 then NaN else Infinity (s \<noteq> t))
      else rnd64 (s \<noteq> t) (shl m (e - f)) (shl n (f - e)))"

section \<open>Decimal output of numbers\<close>

definition digit_char :: "int \<Rightarrow> char" where
  "digit_char d = ''0123456789'' ! nat d"

function show_int :: "int \<Rightarrow> string" where
  "show_int n =
     (if n < 10 then [digit_char n] else show_int (n div 10) @ [digit_char (n mod 10)])"
  by pat_completeness auto
termination
  by (relation "measure nat") auto

declare show_int.simps [simp del]

definition zero_pad :: "nat \<Rightarrow> string \<Rightarrow> string" where
  "zero_pad w s = replicate (w - length s) CHR ''0'' @ s"

text \<open>
  The conversion \<open>%.<prec>f\<close>: the number is rounded to \<open>prec\<close> decimals, a tie
  going to the even neighbour (the rounding of the C library in the default
  rounding mode); \<open>n\<close> is the rounded magnitude in units of \<open>10^(-prec)\<close>.
\<close>

definition fmt_fixed :: "nat \<Rightarrow> bool \<Rightarrow> int \<Rightarrow> string" where
  "fmt_fixed prec s n =
     (if s then ''-'' else [])
       @ show_int (n div 10 ^ prec)
       @ (if prec = 0 then [] else ''.'' @ zero_pad prec (show_int (n mod 10 ^ prec)))"

fun fmt_f :: "nat \<Rightarrow> double \<Rightarrow> string" where
  "fmt_f prec NaN = ''nan''"
| "fmt_f prec (Infinity s) = (if s then ''-inf'' else ''inf'')"
| "fmt_f prec (Finite s m e) =
     fmt_fixed prec s (rne_frac (shl (m * 10 ^ prec) e) (shl 1 (- e)))"

section \<open>Character classes and \<open>strtod\<close>\<close>

text \<open>
  The program never calls \<open>setlocale\<close>, so the C locale applies: white space is
  the six characters below and the radix character is the full stop.
\<close>

definition isspace :: "char \<Rightarrow> bool" where
  "isspace c \<longleftrightarrow> c \<in> set [CHR '' '', CHR 0x09, CHR 0x0A, CHR 0x0B, CHR 0x0C, CHR 0x0D]"

definition isdigit :: "char \<Rightarrow> bool" where
  "isdigit c \<longleftrightarrow> c \<in> set ''0123456789''"

definition lower :: "char \<Rightarrow> char" where
  "lower c =
     (case map_of (zip ''ABCDEFGHIJKLMNOPQRSTUVWXYZ'' ''abcdefghijklmnopqrstuvwxyz'') c of
        Some d \<Rightarrow> d
      | None \<Rightarrow> c)"

definition isxdigit :: "char \<Rightarrow> bool" where
  "isxdigit c \<longleftrightarrow> lower c \<in> set ''0123456789abcdef''"

definition isalnum_us :: "char \<Rightarrow> bool" where
  "isalnum_us c \<longleftrightarrow> lower c \<in> set ''0123456789abcdefghijklmnopqrstuvwxyz_''"

fun index_of :: "char \<Rightarrow> string \<Rightarrow> int" where
  "index_of c [] = 0"
| "index_of c (d # ds) = (if c = d then 0 else 1 + index_of c ds)"

definition digit_of :: "char \<Rightarrow> int" where
  "digit_of c = index_of (lower c) ''0123456789abcdef''"

definition num_val :: "int \<Rightarrow> string \<Rightarrow> int" where
  "num_val base ds = foldl (\<lambda>a c. base * a + digit_of c) 0 ds"

definition istarts :: "string \<Rightarrow> string \<Rightarrow> bool" where
  "istarts pre s \<longleftrightarrow> map lower (take (length pre) s) = pre"

definition take_sign :: "string \<Rightarrow> bool \<times> string" where
  "take_sign s =
     (case s of
        [] \<Rightarrow> (False, s)
      | c # cs \<Rightarrow>
          if c = CHR ''-'' then (True, cs)
          else if c = CHR ''+'' then (False, cs)
          else (False, s))"

text \<open>
  An optional exponent part: one of the marker characters, an optional sign and at
  least one decimal digit.  Without a digit nothing is consumed.
\<close>

definition exp_digits :: "string \<Rightarrow> bool \<times> string \<Rightarrow> int \<times> string" where
  "exp_digits s sg =
     (if takeWhile isdigit (snd sg) = [] then (0, s)
      else ((if fst sg then - num_val 10 (takeWhile isdigit (snd sg))
             else num_val 10 (takeWhile isdigit (snd sg))),
            dropWhile isdigit (snd sg)))"

definition take_exp :: "string \<Rightarrow> string \<Rightarrow> int \<times> string" where
  "take_exp marks s =
     (case s of
        [] \<Rightarrow> (0, s)
      | c # cs \<Rightarrow> if c \<in> set marks then exp_digits s (take_sign cs) else (0, s))"

text \<open>The fraction part after the integer digits: (fraction digits, rest).\<close>

definition take_frac :: "(char \<Rightarrow> bool) \<Rightarrow> string \<Rightarrow> string \<times> string" where
  "take_frac dig s =
     (case s of
        [] \<Rightarrow> ([], s)
      | c # cs \<Rightarrow>
          if c = CHR ''.'' then (takeWhile dig cs, dropWhile dig cs) else ([], s))"

text \<open>
  \<open>mk_scaled s n b x\<close> is the double nearest to \<open>(-1)^s * n * b^x\<close>.
\<close>

definition mk_scaled :: "bool \<Rightarrow> int \<Rightarrow> int \<Rightarrow> int \<Rightarrow> double" where
  "mk_scaled s n b x = rnd64 s (n * b ^ nat x) (b ^ nat (- x))"

definition scaled_rest :: "bool \<Rightarrow> int \<Rightarrow> string \<Rightarrow> int \<Rightarrow> int \<Rightarrow> int \<times> string \<Rightarrow> double \<times> string" where
  "scaled_rest s base ds b k xr = (mk_scaled s (num_val base ds) b (fst xr - k), snd xr)"

definition dec_parts :: "bool \<Rightarrow> string \<Rightarrow> string \<times> string \<Rightarrow> (double \<times> string) option" where
  "dec_parts s ip fr =
     (if ip = [] \<and> fst fr = [] then None
      else Some (scaled_rest s 10 (ip @ fst fr) 10 (int (length (fst fr)))
                   (take_exp ''eE'' (snd fr))))"

definition dec_float :: "bool \<Rightarrow> string \<Rightarrow> (double \<times> string) option" where
  "dec_float s t = dec_parts s (takeWhile isdigit t) (take_frac isdigit (dropWhile isdigit t))"

definition hex_parts :: "bool \<Rightarrow> string \<Rightarrow> string \<times> string \<Rightarrow> (double \<times> string) option" where
  "hex_parts s ip fr =
     (if ip = [] \<and> fst fr = [] then None
      else Some (scaled_rest s 16 (ip @ fst fr) 2 (4 * int (length (fst fr)))
                   (take_exp ''pP'' (snd fr))))"

definition hex_float :: "bool \<Rightarrow> string \<Rightarrow> (double \<times> string) option" where
  "hex_float s t = hex_parts s (takeWhile isxdigit t) (take_frac isxdigit (dropWhile isxdigit t))"

text \<open>After \<open>nan\<close>: an optional parenthesised sequence of letters, digits and underscores.\<close>

definition nan_tail :: "string \<Rightarrow> string" where
  "nan_tail t =
     (case t of
        [] \<Rightarrow> t
      | c # cs \<Rightarrow>
          if c = CHR ''('' then
            (case dropWhile isalnum_us cs of
               [] \<Rightarrow> t
             | d # ds \<Rightarrow> if d = CHR '')'' then ds else t)
          else t)"

text \<open>
  The subject sequence of \<open>strtod\<close> after white space and sign: infinity, NaN
  (sign and payload of a NaN are not modelled), a hexadecimal or a decimal
  floating constant.  \<open>None\<close>: no conversion can be performed.
\<close>

definition strtod_body :: "bool \<times> string \<Rightarrow> (double \<times> string) option" where
  "strtod_body sg =
     (if istarts ''infinity'' (snd sg) then Some (Infinity (fst sg), drop 8 (snd sg))
      else if istarts ''inf'' (snd sg) then Some (Infinity (fst sg), drop 3 (snd sg))
      else if istarts ''nan'' (snd sg) then Some (NaN, nan_tail (drop 3 (snd sg)))
      else if istarts ''0x'' (snd sg) \<and> hex_float (fst sg) (drop 2 (snd sg)) \<noteq> None
        then hex_float (fst sg) (drop 2 (snd sg))
      else dec_float (fst sg) (snd sg))"

definition strtod_opt :: "string \<Rightarrow> (double \<times> string) option" where
  "strtod_opt s = strtod_body (take_sign (dropWhile isspace s))"

definition strtod :: "string \<Rightarrow> double \<times> string" where
  "strtod s = (case strtod_opt s of None \<Rightarrow> (Finite False 0 0, s) | Some r \<Rightarrow> r)"

definition atof :: "string \<Rightarrow> double" where
  "atof s = fst (strtod s)"

section \<open>Formatted output\<close>

text \<open>
  The arguments of a variadic call after the default promotions, and the directives
  the program uses: literal characters, \<open>%%\<close>, and \<open>%u\<close>, \<open>%f\<close>, \<open>%s\<close> with an
  optional precision.  \<open>None\<close> stands for a directive outside this fragment or for
  an argument of the wrong type.
\<close>

datatype arg = AInt int | ADouble double | AStr string

definition fmt_u :: "nat \<Rightarrow> int \<Rightarrow> string" where
  "fmt_u prec v = (if prec = 0 \<and> v = 0 then [] else zero_pad prec (show_int v))"

fun conv :: "char \<Rightarrow> nat option \<Rightarrow> arg \<Rightarrow> string option" where
  "conv c p (AInt i) =
     (if c = CHR ''u'' then Some (fmt_u (case p of None \<Rightarrow> 1 | Some n \<Rightarrow> n) (i mod 2 ^ 32))
      else None)"
| "conv c p (ADouble d) =
     (if c = CHR ''f'' then Some (fmt_f (case p of None \<Rightarrow> 6 | Some n \<Rightarrow> n) d)
      else None)"
| "conv c p (AStr s) =
     (if c = CHR ''s'' then Some (case p of None \<Rightarrow> s | Some n \<Rightarrow> take n s)
      else None)"

datatype fstate = Lit | Spec "nat option"

fun format :: "fstate \<Rightarrow> string \<Rightarrow> arg list \<Rightarrow> string option" where
  "format Lit [] args = Some []"
| "format Lit (c # cs) args =
     (if c = CHR ''%'' then format (Spec None) cs args
      else map_option ((#) c) (format Lit cs args))"
| "format (Spec p) [] args = None"
| "format (Spec p) (c # cs) args =
     (if c = CHR ''.'' \<and> p = None then format (Spec (Some 0)) cs args
      else if isdigit c \<and> p \<noteq> None
        then format (Spec (Some (10 * the p + nat (digit_of c)))) cs args
      else if c = CHR ''%'' \<and> p = None then map_option ((#) c) (format Lit cs args)
      else (case args of
              [] \<Rightarrow> None
            | a # as \<Rightarrow>
                (case conv c p a of
                   None \<Rightarrow> None
                 | Some out \<Rightarrow> map_option ((@) out) (format Lit cs as))))"

text \<open>
  \<open>snprintf(buf, size, fmt, ...)\<close> stores at most \<open>size - 1\<close> characters of the
  output and a terminator after them, and returns the length of the whole output,
  or a negative value when that length is not an \<open>int\<close>.
  The result is (buffer, return value, indices stored to).
\<close>

definition INT_MAX :: nat where
  "INT_MAX = 2147483647"

definition snprintf_ret :: "nat \<Rightarrow> int" where
  "snprintf_ret n = (if n \<le> INT_MAX then int n else - 1)"

definition snprintf_put :: "string \<Rightarrow> nat \<Rightarrow> string \<Rightarrow> string \<times> int \<times> nat list" where
  "snprintf_put buf cap out =
     (if cap = 0 then (buf, snprintf_ret (length out), [])
      else (take (cap - 1) out @ NUL # drop (Suc (min (length out) (cap - 1))) buf,
            snprintf_ret (length out),
            [0..<Suc (min (length out) (cap - 1))]))"

definition snprintf :: "string \<Rightarrow> nat \<Rightarrow> string \<Rightarrow> arg list \<Rightarrow> (string \<times> int \<times> nat list) option" where
  "snprintf buf cap fmt args = map_option (snprintf_put buf cap) (format Lit fmt args)"

section \<open>Formatted input\<close>

text \<open>
  A conversion specification of \<open>sscanf\<close> is \<open>%\<close>, an optional \<open>*\<close>, an optional
  decimal field width, an optional length modifier and a conversion specifier.
  There is no precision: a full stop after \<open>%\<close> is none of these, the
  specification is invalid, and the C library stops there with the conversions
  made so far (the C standard leaves the behaviour undefined).  The floating
  conversions are modelled; the other valid specifiers are reported as such.
  The result lists the values stored, each with the type of the object the
  directive stores to, and the reason for stopping.
\<close>

datatype ftype = TFloat | TDouble | TLongDouble

datatype scan_stop = SEnd | SInput | SMatch | SInvalid char | SOther char | SBadFormat

datatype sstate = SLit | SSpec bool "nat option" "ftype"

definition scan_float :: "nat option \<Rightarrow> string \<Rightarrow> (double \<times> string) option" where
  "scan_float w inp =
     (case w of
        None \<Rightarrow> strtod_opt inp
      | Some n \<Rightarrow> map_option (\<lambda>r. (fst r, snd r @ drop n inp)) (strtod_opt (take n inp)))"

fun sscanf_go :: "sstate \<Rightarrow> string \<Rightarrow> string \<Rightarrow> (ftype \<times> double) list \<times> scan_stop" where
  "sscanf_go SLit [] inp = ([], SEnd)"
| "sscanf_go SLit (c # cs) inp =
     (if isspace c then sscanf_go SLit cs (dropWhile isspace inp)
      else if c = CHR ''%'' then sscanf_go (SSpec False None TFloat) cs inp
      else (case inp of
              [] \<Rightarrow> ([], SInput)
            | i # is \<Rightarrow> if i = c then sscanf_go SLit cs is else ([], SMatch)))"
| "sscanf_go (SSpec quiet w ty) [] inp = ([], SBadFormat)"
| "sscanf_go (SSpec quiet w ty) (c # cs) inp =
     (if c = CHR ''*'' \<and> \<not> quiet \<and> w = None \<and> ty = TFloat
        then sscanf_go (SSpec True None TFloat) cs inp
      else if isdigit c \<and> ty = TFloat
        then sscanf_go (SSpec quiet (Some (10 * (case w of None \<Rightarrow> 0 | Some n \<Rightarrow> n)
                                         + nat (digit_of c))) TFloat) cs inp
      else if c = CHR ''l'' \<and> ty = TFloat then sscanf_go (SSpec quiet w TDouble) cs inp
      else if c = CHR ''L'' \<and> ty = TFloat then sscanf_go (SSpec quiet w TLongDouble) cs inp
      else if c \<in> set ''aAeEfFgG'' then
        (case scan_float w (dropWhile isspace inp) of
           None \<Rightarrow> ([], if dropWhile isspace inp = [] then SInput else SMatch)
         | Some r \<Rightarrow>
             (case sscanf_go SLit cs (snd r) of
                (vs, stop) \<Rightarrow> ((if quiet then [] else [(ty, fst r)]) @ vs, stop)))
      else if c \<in> set ''diouxXcsCSpn[%hjztq'' then ([], SOther c)
      else ([], SInvalid c))"

definition sscanf :: "string \<Rightarrow> string \<Rightarrow> (ftype \<times> double) list \<times> scan_stop" where
  "sscanf str fmt = sscanf_go SLit fmt str"

section \<open>The process\<close>

text \<open>
  What the program does to its environment: the requests it sends over the display
  connection (always for the one display and its root window), the text it
  writes to standard error, the reads it issues.  The state of the process holds
  these logs, the registered exit handlers (most recent first), the disposition
  of the three signals, \<open>errno\<close>, and the variables of the loop body.
\<close>

datatype xreq = XStoreName string | XFlush | XCloseDisplay

datatype signal = SIGHUP | SIGINT | SIGTERM

datatype sigdisp = SIG_DFL | Handler_onsignal

datatype exitfn = Fn_onexit

record proc =
  dpy_open :: bool
  xlog :: "xreq list"
  err_stream :: string
  atexit_fns :: "exitfn list"
  disp_hup :: sigdisp
  disp_int :: sigdisp
  disp_term :: sigdisp
  errno :: int
  syscalls :: "(string \<times> nat \<times> nat) list"
  nam :: string
  avg :: string
  now :: string
  ful :: string
  avg1 :: double
  avg5 :: double
  avg15 :: double
  tm_hour :: int
  tm_min :: int
  tm_sec :: int
  fmt_ret :: int
  nam_stores :: "nat list"

datatype outcome = Running proc | Exited int proc | Killed signal proc | Undefined proc

definition EXIT_SUCCESS :: int where
  "EXIT_SUCCESS = 0"

definition EXIT_FAILURE :: int where
  "EXIT_FAILURE = 1"

definition onexit :: "proc \<Rightarrow> proc" where
  "onexit p = p\<lparr>xlog := xlog p @ [XStoreName [], XCloseDisplay], dpy_open := False\<rparr>"

fun run_exitfns :: "exitfn list \<Rightarrow> proc \<Rightarrow> proc" where
  "run_exitfns [] p = p"
| "run_exitfns (Fn_onexit # fs) p = run_exitfns fs (onexit p)"

text \<open>\<open>exit\<close> calls the registered handlers, each once, and ends the process.\<close>

definition exit_proc :: "int \<Rightarrow> proc \<Rightarrow> outcome" where
  "exit_proc status p = Exited status (run_exitfns (atexit_fns p) (p\<lparr>atexit_fns := []\<rparr>))"

definition die :: "string \<Rightarrow> arg list \<Rightarrow> proc \<Rightarrow> outcome" where
  "die fmt args p =
     (case format Lit fmt args of
        None \<Rightarrow> Undefined p
      | Some msg \<Rightarrow> exit_proc EXIT_FAILURE (p\<lparr>err_stream := err_stream p @ msg\<rparr>))"

definition onsignal :: "signal \<Rightarrow> proc \<Rightarrow> outcome" where
  "onsignal sig p = exit_proc EXIT_SUCCESS p"

fun disposition :: "proc \<Rightarrow> signal \<Rightarrow> sigdisp" where
  "disposition p SIGHUP = disp_hup p"
| "disposition p SIGINT = disp_int p"
| "disposition p SIGTERM = disp_term p"

text \<open>
  Delivery of a signal: the handler runs if one is installed; the default action
  of all three signals ends the process without running the exit handlers.
\<close>

definition deliver :: "signal \<Rightarrow> proc \<Rightarrow> outcome" where
  "deliver sig p =
     (case disposition p sig of
        SIG_DFL \<Rightarrow> Killed sig p
      | Handler_onsignal \<Rightarrow> onsignal sig p)"

section \<open>The environment\<close>

text \<open>
  What the program finds when it runs: the error texts of the C library, whether
  the display can be opened and its name, whether \<open>sigaction\<close> and \<open>open\<close> fail
  (with which \<open>errno\<close>), the broken-down UTC time, the three files, and the
  indeterminate contents of the loop body's variables before they are assigned.
\<close>

record world =
  strerror :: "int \<Rightarrow> string"
  x_ok :: bool
  x_name :: string
  sigaction_err :: "signal \<Rightarrow> int option"
  open_err :: "string \<Rightarrow> int option"
  clock :: "int \<times> int \<times> int"
  f_loadavg :: fdesc
  f_engynow :: fdesc
  f_engyful :: fdesc
  g_nam :: string
  g_avg :: string
  g_now :: string
  g_ful :: string
  g_avg1 :: double
  g_avg5 :: double
  g_avg15 :: double

definition LOADAVG :: string where
  "LOADAVG = ''/proc/loadavg''"

definition ENGYNOW :: string where
  "ENGYNOW = ''/sys/class/power_supply/BAT0/energy_now''"

definition ENGYFUL :: string where
  "ENGYFUL = ''/sys/class/power_supply/BAT0/energy_full''"

text \<open>The typographic quotation marks of the messages, in UTF-8.\<close>

definition LQ :: string where
  "LQ = [CHR 0xE2, CHR 0x80, CHR 0x9C]"

definition RQ :: string where
  "RQ = [CHR 0xE2, CHR 0x80, CHR 0x9D]"

definition display_fmt :: string where
  "display_fmt = ''Unable to open display '' @ LQ @ ''%s'' @ RQ @ [CHR 0x0A]"

definition signal_fmt :: string where
  "signal_fmt = ''Unable to set signal handler: %s'' @ [CHR 0x0A]"

definition open_fmt :: string where
  "open_fmt = ''Failed to open '' @ LQ @ ''%s'' @ RQ @ '': %s'' @ [CHR 0x0A]"

definition read_fmt :: string where
  "read_fmt = ''Failed to read from '' @ LQ @ ''%s'' @ RQ @ '': %s'' @ [CHR 0x0A]"

definition scan_fmt :: string where
  "scan_fmt = ''%.2f %.2f %.2f''"

definition status_fmt :: string where
  "status_fmt = ''%.2u:%.2u:%.2u  %.2f %.2f %.2f  %.2f''"

section \<open>\<open>main\<close>: start-up\<close>

definition proc_start :: proc where
  "proc_start =
     \<lparr>dpy_open = False, xlog = [], err_stream = [], atexit_fns = [],
      disp_hup = SIG_DFL, disp_int = SIG_DFL, disp_term = SIG_DFL,
      errno = 0, syscalls = [], nam = [], avg = [], now = [], ful = [],
      avg1 = NaN, avg5 = NaN, avg15 = NaN,
      tm_hour = 0, tm_min = 0, tm_sec = 0, fmt_ret = 0, nam_stores = []\<rparr>"

fun set_handler :: "signal \<Rightarrow> proc \<Rightarrow> proc" where
  "set_handler SIGHUP p = p\<lparr>disp_hup := Handler_onsignal\<rparr>"
| "set_handler SIGINT p = p\<lparr>disp_int := Handler_onsignal\<rparr>"
| "set_handler SIGTERM p = p\<lparr>disp_term := Handler_onsignal\<rparr>"

text \<open>
  The three \<open>sigaction\<close> calls are joined by \<open>||\<close>: the first failure ends the
  chain.  The result says whether one failed.
\<close>

fun install :: "world \<Rightarrow> signal list \<Rightarrow> proc \<Rightarrow> proc \<times> bool" where
  "install w [] p = (p, False)"
| "install w (s # ss) p =
     (case sigaction_err w s of
        Some e \<Rightarrow> (p\<lparr>errno := e\<rparr>, True)
      | None \<Rightarrow> install w ss (set_handler s p))"

fun open_files :: "world \<Rightarrow> string list \<Rightarrow> proc \<Rightarrow> outcome" where
  "open_files w [] p = Running p"
| "open_files w (path # paths) p =
     (case open_err w path of
        Some e \<Rightarrow> die open_fmt [AStr path, AStr (strerror w e)] (p\<lparr>errno := e\<rparr>)
      | None \<Rightarrow> open_files w paths p)"

definition init_signals :: "world \<Rightarrow> proc \<times> bool \<Rightarrow> outcome" where
  "init_signals w r =
     (if snd r then die signal_fmt [AStr (strerror w (errno (fst r)))] (fst r)
      else open_files w [LOADAVG, ENGYNOW, ENGYFUL] (fst r))"

definition main_init :: "world \<Rightarrow> proc \<Rightarrow> outcome" where
  "main_init w p =
     (if \<not> x_ok w then die display_fmt [AStr (x_name w)] p
      else init_signals w
             (install w [SIGHUP, SIGINT, SIGTERM]
                (p\<lparr>dpy_open := True, atexit_fns := Fn_onexit # atexit_fns p\<rparr>)))"

section \<open>\<open>main\<close>: the loop\<close>

text \<open>An array of \<open>n\<close> bytes with indeterminate contents.\<close>

definition fit :: "nat \<Rightarrow> string \<Rightarrow> string" where
  "fit n g = take n (g @ replicate n NUL)"

definition s_locals :: "world \<Rightarrow> proc \<Rightarrow> outcome" where
  "s_locals w p =
     Running (p\<lparr>nam := fit 128 (g_nam w), avg := fit 32 (g_avg w),
                now := fit 32 (g_now w), ful := fit 32 (g_ful w),
                avg1 := g_avg1 w, avg5 := g_avg5 w, avg15 := g_avg15 w,
                nam_stores := []\<rparr>)"

definition s_time :: "world \<Rightarrow> proc \<Rightarrow> outcome" where
  "s_time w p =
     Running (p\<lparr>tm_hour := fst (clock w), tm_min := fst (snd (clock w)),
                tm_sec := snd (snd (clock w))\<rparr>)"

definition log_reads :: "string \<Rightarrow> cat_result \<Rightarrow> proc \<Rightarrow> proc" where
  "log_reads path r p =
     p\<lparr>errno := errno_after r,
       syscalls := syscalls p @ map (\<lambda>c. (path, fst c, snd c)) (preads r)\<rparr>"

definition read_failed :: "world \<Rightarrow> string \<Rightarrow> proc \<Rightarrow> outcome" where
  "read_failed w path p = die read_fmt [AStr path, AStr (strerror w (errno p))] p"

text \<open>
  A read by \<open>cat\<close> into one of the buffers, and the test of its result: a negative
  value is fatal.
\<close>

definition check_read ::
  "world \<Rightarrow> string \<Rightarrow> cat_result \<Rightarrow> (string \<Rightarrow> proc \<Rightarrow> proc) \<Rightarrow> proc \<Rightarrow> outcome" where
  "check_read w path r put p =
     (if ret r < 0 then read_failed w path (log_reads path r (put (buf_after r) p))
      else Running (log_reads path r (put (buf_after r) p)))"

definition s_loadavg :: "world \<Rightarrow> proc \<Rightarrow> outcome" where
  "s_loadavg w p = check_read w LOADAVG (cat (f_loadavg w) (avg p) 32 (errno p)) (\<lambda>b. avg_update (\<lambda>_. b)) p"

text \<open>
  The values that \<open>sscanf\<close> stores go to \<open>avg1\<close>, \<open>avg5\<close>, \<open>avg15\<close> in this order.
  The three objects are \<open>double\<close>s: a store of another type is undefined.
\<close>

fun set_avg :: "nat \<Rightarrow> double \<Rightarrow> proc \<Rightarrow> proc" where
  "set_avg 0 v p = p\<lparr>avg1 := v\<rparr>"
| "set_avg (Suc 0) v p = p\<lparr>avg5 := v\<rparr>"
| "set_avg (Suc (Suc k)) v p = p\<lparr>avg15 := v\<rparr>"

fun assign_avgs :: "nat \<Rightarrow> (ftype \<times> double) list \<Rightarrow> proc \<Rightarrow> outcome" where
  "assign_avgs k [] p = Running p"
| "assign_avgs k ((ty, v) # vs) p =
     (if ty = TDouble \<and> k < 3 then assign_avgs (Suc k) vs (set_avg k v p) else Undefined p)"

definition s_sscanf :: "world \<Rightarrow> proc \<Rightarrow> outcome" where
  "s_sscanf w p = assign_avgs 0 (fst (sscanf (cstr (avg p)) scan_fmt)) p"

definition s_engynow :: "world \<Rightarrow> proc \<Rightarrow> outcome" where
  "s_engynow w p = check_read w ENGYNOW (cat (f_engynow w) (now p) 32 (errno p)) (\<lambda>b. now_update (\<lambda>_. b)) p"

definition s_engyful :: "world \<Rightarrow> proc \<Rightarrow> outcome" where
  "s_engyful w p = check_read w ENGYFUL (cat (f_engyful w) (ful p) 32 (errno p)) (\<lambda>b. ful_update (\<lambda>_. b)) p"

definition status_args :: "proc \<Rightarrow> arg list" where
  "status_args p =
     [AInt (tm_hour p), AInt (tm_min p), AInt (tm_sec p),
      ADouble (avg1 p), ADouble (avg5 p), ADouble (avg15 p),
      ADouble (fdiv (atof (cstr (now p))) (atof (cstr (ful p))))]"

definition put_status :: "(string \<times> int \<times> nat list) option \<Rightarrow> proc \<Rightarrow> outcome" where
  "put_status res p =
     (case res of
        None \<Rightarrow> Undefined p
      | Some r \<Rightarrow>
          Running (p\<lparr>nam := fst r, fmt_ret := fst (snd r),
                     nam_stores := nam_stores p @ snd (snd r)\<rparr>))"

definition s_snprintf :: "world \<Rightarrow> proc \<Rightarrow> outcome" where
  "s_snprintf w p = put_status (snprintf (nam p) 128 status_fmt (status_args p)) p"

text \<open>
  \<open>if (ret >= sizeof nam) nam[sizeof nam] = '\0';\<close>  The comparison converts
  \<open>ret\<close> to \<open>size_t\<close>.  The store goes to index 128 of an array whose last index
  is 127: it is logged, and the 128 bytes of \<open>nam\<close> keep their values.
\<close>

definition s_terminate :: "world \<Rightarrow> proc \<Rightarrow> outcome" where
  "s_terminate w p =
     (if (128 :: size_t) \<le> word_of_int (fmt_ret p)
      then Running (p\<lparr>nam := (nam p)[128 := NUL], nam_stores := nam_stores p @ [128]\<rparr>)
      else Running p)"

definition s_store :: "world \<Rightarrow> proc \<Rightarrow> outcome" where
  "s_store w p = Running (p\<lparr>xlog := xlog p @ [XStoreName (cstr (nam p))]\<rparr>)"

definition s_flush :: "world \<Rightarrow> proc \<Rightarrow> outcome" where
  "s_flush w p = Running (p\<lparr>xlog := xlog p @ [XFlush]\<rparr>)"

definition s_sleep :: "world \<Rightarrow> proc \<Rightarrow> outcome" where
  "s_sleep w p = Running p"

definition loop_body :: "(world \<Rightarrow> proc \<Rightarrow> outcome) list" where
  "loop_body =
     [s_locals, s_time, s_loadavg, s_sscanf, s_engynow, s_engyful,
      s_snprintf, s_terminate, s_store, s_flush, s_sleep]"

fun run_stmts :: "(world \<Rightarrow> proc \<Rightarrow> outcome) list \<Rightarrow> world \<Rightarrow> proc \<Rightarrow> outcome" where
  "run_stmts [] w p = Running p"
| "run_stmts (s # ss) w p =
     (case s w p of
        Running p' \<Rightarrow> run_stmts ss w p'
      | Exited st p' \<Rightarrow> Exited st p'
      | Killed sg p' \<Rightarrow> Killed sg p'
      | Undefined p' \<Rightarrow> Undefined p')"

definition iteration :: "world \<Rightarrow> proc \<Rightarrow> outcome" where
  "iteration w p = run_stmts loop_body w p"

text \<open>
  The loop has no exit of its own.  \<open>run_loop\<close> runs it for as many iterations as
  there are environments in the list; \<open>Running\<close> then says that the process is
  still in the loop.
\<close>

fun run_loop :: "world list \<Rightarrow> proc \<Rightarrow> outcome" where
  "run_loop [] p = Running p"
| "run_loop (w # ws) p =
     (case iteration w p of
        Running p' \<Rightarrow> run_loop ws p'
      | Exited st p' \<Rightarrow> Exited st p'
      | Killed sg p' \<Rightarrow> Killed sg p'
      | Undefined p' \<Rightarrow> Undefined p')"

definition main :: "world \<Rightarrow> world list \<Rightarrow> outcome" where
  "main w0 ws =
     (case main_init w0 proc_start of
        Running p \<Rightarrow> run_loop ws p
      | Exited st p \<Rightarrow> Exited st p
      | Killed sg p \<Rightarrow> Killed sg p
      | Undefined p \<Rightarrow> Undefined p)"

section \<open>What the statements below are about\<close>

text \<open>
  The status line in the words of its description, \<open>HH:MM:SS  L1 L5 L15  B\<close>:
  three unsigned fields of at least two digits and four fields with two decimals.
\<close>

definition status_line ::
  "int \<Rightarrow> int \<Rightarrow> int \<Rightarrow> double \<Rightarrow> double \<Rightarrow> double \<Rightarrow> double \<Rightarrow> string" where
  "status_line h m s l1 l5 l15 b =
     fmt_u 2 (h mod 2 ^ 32) @ '':'' @ fmt_u 2 (m mod 2 ^ 32) @ '':'' @ fmt_u 2 (s mod 2 ^ 32)
       @ ''  '' @ fmt_f 2 l1 @ '' '' @ fmt_f 2 l5 @ '' '' @ fmt_f 2 l15
       @ ''  '' @ fmt_f 2 b"

text \<open>The last field of a line: what follows its last space.\<close>

definition last_field :: "string \<Rightarrow> string" where
  "last_field s = rev (takeWhile (\<lambda>c. c \<noteq> CHR '' '') (rev s))"

text \<open>
  The string that \<open>cat\<close> leaves in a buffer of 32 bytes when the read succeeds: the
  front of the file, up to 31 bytes, up to a terminator of its own.
\<close>

definition seen :: "fdesc \<Rightarrow> string" where
  "seen fd = cstr (take (min 31 (short fd)) (content fd))"

text \<open>The line that an iteration formats when its three reads succeed.\<close>

definition line_of :: "world \<Rightarrow> string" where
  "line_of w =
     status_line (fst (clock w)) (fst (snd (clock w))) (snd (snd (clock w)))
       (g_avg1 w) (g_avg5 w) (g_avg15 w)
       (fdiv (atof (seen (f_engynow w))) (atof (seen (f_engyful w))))"


fun is_finite :: "double \<Rightarrow> bool" where
  "is_finite (Finite s m e) = True"
| "is_finite (Infinity s) = False"
| "is_finite NaN = False"









section \<open>Example environments\<close>

text \<open>
  The end-to-end example of the description: the three files hold the given
  texts and the time is 07:09:03.  The variables \<open>avg1\<close>, \<open>avg5\<close>, \<open>avg15\<close>
  happen to hold zeros before the loop body assigns them.
\<close>

definition example_world :: world where
  "example_world =
     \<lparr>strerror = (\<lambda>e. ''Input/output error''), x_ok = True, x_name = '':0'',
      sigaction_err = (\<lambda>s. None), open_err = (\<lambda>path. None),
      clock = (7, 9, 3),
      f_loadavg = \<lparr>content = ''0.50 0.75 1.20 1/123 4567'' @ [CHR 0x0A],
                   pos = 0, fault = None, short = 4096\<rparr>,
      f_engynow = \<lparr>content = ''5000'' @ [CHR 0x0A], pos = 0, fault = None, short = 4096\<rparr>,
      f_engyful = \<lparr>content = ''10000'' @ [CHR 0x0A], pos = 0, fault = None, short = 4096\<rparr>,
      g_nam = [], g_avg = [], g_now = [], g_ful = [],
      g_avg1 = Finite False 0 0, g_avg5 = Finite False 0 0, g_avg15 = Finite False 0 0\<rparr>"

text \<open>The same, but \<open>avg1\<close> happens to hold \<open>2^432\<close>, a number of 131 digits.\<close>

definition long_world :: world where
  "long_world = example_world\<lparr>g_avg1 := Finite False 1 432\<rparr>"

text \<open>The same as the first, but the full-energy file reads \<open>0\<close>.\<close>

definition empty_battery_world :: world where
  "empty_battery_world =
     example_world\<lparr>f_engyful :=
       \<lparr>content = ''0'' @ [CHR 0x0A], pos = 0, fault = None, short = 4096\<rparr>\<rparr>"

text \<open>The same as the first, but reading the full-energy file fails with \<open>EIO\<close>.\<close>

definition failing_world :: world where
  "failing_world =
     example_world\<lparr>f_engyful :=
       \<lparr>content = ''10000'' @ [CHR 0x0A], pos = 0, fault = Some 5, short = 4096\<rparr>\<rparr>"



text \<open>The characters that a numeric field of the line is made of.\<close>

definition field_char :: "char \<Rightarrow> bool" where
  "field_char c \<longleftrightarrow> c \<in> set ''-.0123456789infa''"


text \<open>The requests that the exit handlers send, one pair for each registered handler.\<close>

definition cleanup :: "exitfn list \<Rightarrow> xreq list" where
  "cleanup fs = concat (map (\<lambda>f. [XStoreName [], XCloseDisplay]) fs)"


text \<open>
  \<open>exit\<close> in steps.  It takes the registered handlers off the list and calls them;
  \<open>onexit\<close> has two statements.  \<open>exit_points\<close> lists the states that the process
  passes through on the way: before a handler, between the two statements of the
  handler, and after it.
\<close>

definition exit_begin :: "proc \<Rightarrow> proc" where
  "exit_begin p = p\<lparr>atexit_fns := []\<rparr>"

definition onexit_name :: "proc \<Rightarrow> proc" where
  "onexit_name p = p\<lparr>xlog := xlog p @ [XStoreName []]\<rparr>"

definition onexit_close :: "proc \<Rightarrow> proc" where
  "onexit_close p = p\<lparr>xlog := xlog p @ [XCloseDisplay], dpy_open := False\<rparr>"

fun exit_points :: "exitfn list \<Rightarrow> proc \<Rightarrow> proc list" where
  "exit_points [] p = [p]"
| "exit_points (Fn_onexit # fs) p =
     p # onexit_name p # exit_points fs (onexit_close (onexit_name p))"




section \<open>Evaluation on numerals\<close>

lemma blen_num:
  "blen 0 = 0" "blen 1 = 1" "blen (numeral k) = 1 + blen (numeral k div 2)"
  by (simp_all add: blen.simps)

lemma show_int_num:
  "show_int (numeral k) =
     (if numeral k < (10::int) then [digit_char (numeral k)]
      else show_int (numeral k div 10) @ [digit_char (numeral k mod 10)])"
  "show_int 0 = ''0''" "show_int 1 = ''1''"
    apply (rule show_int.simps)
   apply (simp add: show_int.simps [of 0] digit_char_def)
  apply (simp add: show_int.simps [of 1] digit_char_def)
  done

lemmas ev_num = blen_num show_int_num fmt_fixed_def rnd64_def rnd64_at_def pack64_def ilog2_def ilog2_at_def shl_def
  rne_frac_def rne_pick_def digit_char_def zero_pad_def fmt_u_def

lemmas ev_str = scaled_rest_def sscanf_def scan_float_def isspace_def isdigit_def lower_def
  isxdigit_def isalnum_us_def digit_of_def num_val_def istarts_def take_sign_def exp_digits_def
  take_exp_def take_frac_def mk_scaled_def dec_parts_def dec_float_def hex_parts_def
  hex_float_def nan_tail_def strtod_body_def strtod_opt_def strtod_def atof_def cstr_def NUL_def

lemmas ev_proc = onexit_def exit_proc_def die_def onsignal_def deliver_def EXIT_SUCCESS_def
  EXIT_FAILURE_def LOADAVG_def ENGYNOW_def ENGYFUL_def LQ_def RQ_def display_fmt_def
  signal_fmt_def open_fmt_def read_fmt_def scan_fmt_def status_fmt_def proc_start_def
  init_signals_def main_init_def fit_def s_locals_def s_time_def log_reads_def read_failed_def
  check_read_def s_loadavg_def s_sscanf_def s_engynow_def s_engyful_def status_args_def
  put_status_def s_snprintf_def s_terminate_def s_store_def s_flush_def s_sleep_def
  loop_body_def iteration_def main_def snprintf_def snprintf_put_def snprintf_ret_def
  INT_MAX_def cat_def pread_def EINVAL_def

section \<open>Formats\<close>

lemma sscanf_scan_fmt: "sscanf inp scan_fmt = ([], SInvalid CHR ''.'')"
  by (simp add: sscanf_def scan_fmt_def isspace_def isdigit_def)

lemma format_status:
  "format Lit status_fmt
     [AInt h, AInt m, AInt s, ADouble l1, ADouble l5, ADouble l15, ADouble b]
   = Some (status_line h m s l1 l5 l15 b)"
  by (simp add: status_fmt_def status_line_def isdigit_def digit_of_def lower_def
      numeral_2_eq_2)

lemma format_read_fmt:
  "format Lit read_fmt [AStr path, AStr msg]
   = Some (''Failed to read from '' @ LQ @ path @ RQ @ '': '' @ msg @ [CHR 0x0A])"
  by (simp add: read_fmt_def LQ_def RQ_def isdigit_def)

lemma digit_char_in: "d < 10 \<Longrightarrow> digit_char d \<in> set ''0123456789''"
  unfolding digit_char_def by (rule nth_mem) simp

lemma show_int_digits: "set (show_int n) \<subseteq> set ''0123456789''"
proof (induction n rule: show_int.induct)
  case (1 n)
  show ?case
  proof (cases "n < 10")
    case True
    then show ?thesis
      using digit_char_in [of n] by (subst show_int.simps) simp
  next
    case False
    have "n mod 10 < 10" by simp
    then have "digit_char (n mod 10) \<in> set ''0123456789''"
      by (rule digit_char_in)
    with False "1.IH" show ?thesis
      by (subst show_int.simps) simp
  qed
qed

lemma show_int_ne: "show_int n \<noteq> []"
  by (subst show_int.simps) simp

section \<open>Reads\<close>

lemma pread_ok:
  "fault fd = None \<Longrightarrow>
   pread fd buf count offset e0 =
     (int (length (take (min count (short fd)) (drop offset (content fd)))), e0,
      take (min count (short fd)) (drop offset (content fd))
        @ drop (length (take (min count (short fd)) (drop offset (content fd)))) buf)"
  by (simp add: pread_def Let_def)

lemma pread_fail:
  "fault fd = Some e \<Longrightarrow> pread fd buf count offset e0 = (- 1, e, buf)"
  by (simp add: pread_def)

lemma cstr_append_NUL: "cstr (xs @ NUL # ys) = cstr xs"
  by (induction xs) (simp_all add: cstr_def)

lemma pread_ignores_pos:
  "pread (fd\<lparr>pos := p\<rparr>) buf count offset e0 = pread fd buf count offset e0"
  by (cases "fault fd") (simp_all add: pread_def)

lemma pread_ret_cases:
  "fst (pread fd buf count offset e0) < 0 \<longleftrightarrow> fault fd \<noteq> None"
  by (cases "fault fd") (simp_all add: pread_def Let_def)

lemma word_pos_unat: "\<not> (len::size_t) \<le> 0 \<Longrightarrow> unat (len - 1) = unat len - 1 \<and> 0 < unat len"
  by (metis One_nat_def unat_minus_one word_le_0_iff unat_gt_0)

lemma cat_ok:
  assumes "\<not> len \<le> 0" and "fault fd = None"
  shows "cat fd buf len e0 =
     (let data = take (min (unat len - 1) (short fd)) (content fd)
      in \<lparr>ret = int (length data), errno_after = e0,
          buf_after = (data @ drop (length data) buf)[length data := NUL],
          filled = [0..<length data], stores = [length data],
          preads = [(unat len - 1, 0)]\<rparr>)"
  using assms by (simp add: cat_def pread_ok word_pos_unat Let_def)

lemma cat_fail:
  assumes "\<not> len \<le> 0" and "fault fd = Some e"
  shows "cat fd buf len e0 =
     \<lparr>ret = - 1, errno_after = e, buf_after = buf,
      filled = [], stores = [], preads = [(unat len - 1, 0)]\<rparr>"
  using assms by (simp add: cat_def pread_fail word_pos_unat)

lemma cat_ret_neg: "\<not> len \<le> 0 \<Longrightarrow> ret (cat fd buf len e0) < 0 \<longleftrightarrow> fault fd \<noteq> None"
  by (cases "fault fd") (simp_all add: cat_ok cat_fail Let_def)

lemma cstr_no_NUL: "NUL \<notin> set xs \<Longrightarrow> cstr xs = xs"
  unfolding cstr_def by (rule takeWhile_eq_all_conv [THEN iffD2]) auto

lemma fit_length [simp]: "length (fit n g) = n"
  by (simp add: fit_def)

lemma take_length_take: "take (length (take n xs)) xs = take n xs"
  by (metis append_eq_conv_conj append_take_drop_id)

lemma cat_ok_props:
  assumes pos: "\<not> len \<le> 0" and ok: "fault fd = None" and len: "length buf = unat len"
  shows "ret (cat fd buf len e) = int (min (min (unat len - 1) (short fd)) (length (content fd)))"
    and "errno_after (cat fd buf len e) = e"
    and "preads (cat fd buf len e) = [(unat len - 1, 0)]"
    and "nat (ret (cat fd buf len e)) \<le> unat len - 1"
    and "take (nat (ret (cat fd buf len e))) (buf_after (cat fd buf len e))
           = take (nat (ret (cat fd buf len e))) (content fd)"
    and "buf_after (cat fd buf len e) ! nat (ret (cat fd buf len e)) = NUL"
    and "length (buf_after (cat fd buf len e)) = unat len"
    and "cstr (buf_after (cat fd buf len e)) = cstr (take (min (unat len - 1) (short fd)) (content fd))"
proof -
  define data where "data = take (min (unat len - 1) (short fd)) (content fd)"
  have r: "cat fd buf len e =
      \<lparr>ret = int (length data), errno_after = e,
       buf_after = (data @ drop (length data) buf)[length data := NUL],
       filled = [0..<length data], stores = [length data],
       preads = [(unat len - 1, 0)]\<rparr>"
    using cat_ok [OF pos ok] by (simp add: data_def Let_def)
  have n: "length data \<le> unat len - 1"
    by (simp add: data_def)
  have lt: "length data < length buf"
    using n word_pos_unat [OF pos] len by linarith
  have tk: "take (length data) (content fd) = data"
    unfolding data_def by (rule take_length_take)
  have upd: "(data @ drop (length data) buf)[length data := NUL]
      = data @ NUL # drop (Suc (length data)) buf"
    using lt by (simp add: list_update_append upd_conv_take_nth_drop drop_Suc tl_drop)
  show "ret (cat fd buf len e) = int (min (min (unat len - 1) (short fd)) (length (content fd)))"
    by (simp add: r data_def min.commute)
  show "errno_after (cat fd buf len e) = e"
    by (simp add: r)
  show "preads (cat fd buf len e) = [(unat len - 1, 0)]"
    by (simp add: r)
  show "nat (ret (cat fd buf len e)) \<le> unat len - 1"
    using n by (simp add: r)
  show "take (nat (ret (cat fd buf len e))) (buf_after (cat fd buf len e))
      = take (nat (ret (cat fd buf len e))) (content fd)"
    by (simp add: r tk)
  show "buf_after (cat fd buf len e) ! nat (ret (cat fd buf len e)) = NUL"
    using lt by (simp add: r nth_list_update)
  show "length (buf_after (cat fd buf len e)) = unat len"
    using lt len by (simp add: r)
  show "cstr (buf_after (cat fd buf len e)) = cstr (take (min (unat len - 1) (short fd)) (content fd))"
    unfolding data_def [symmetric] by (simp only: r cat_result.simps upd cstr_append_NUL)
qed

lemma cat_ignores_pos: "cat (fd\<lparr>pos := k\<rparr>) buf len e = cat fd buf len e"
  by (simp add: cat_def pread_ignores_pos)

lemma cat32_ok:
  assumes "fault fd = None" and "length buf = 32"
  shows "\<not> ret (cat fd buf 32 e) < 0"
    and "errno_after (cat fd buf 32 e) = e"
    and "preads (cat fd buf 32 e) = [(31, 0)]"
    and "length (buf_after (cat fd buf 32 e)) = 32"
    and "cstr (buf_after (cat fd buf 32 e)) = seen fd"
proof -
  have pos: "\<not> (32::size_t) \<le> 0" by simp
  have len: "length buf = unat (32::size_t)" using assms(2) by simp
  note p = cat_ok_props [OF pos assms(1) len, of e]
  show "\<not> ret (cat fd buf 32 e) < 0" using p(1) by simp
  show "errno_after (cat fd buf 32 e) = e" using p(2) .
  show "preads (cat fd buf 32 e) = [(31, 0)]" using p(3) by simp
  show "length (buf_after (cat fd buf 32 e)) = 32" using p(7) by simp
  show "cstr (buf_after (cat fd buf 32 e)) = seen fd" using p(8) by (simp add: seen_def)
qed

lemma cat32_fail:
  assumes "fault fd = Some x"
  shows "cat fd buf 32 e =
     \<lparr>ret = - 1, errno_after = x, buf_after = buf,
      filled = [], stores = [], preads = [(31, 0)]\<rparr>"
proof -
  have pos: "\<not> (32::size_t) \<le> 0" by simp
  show ?thesis using cat_fail [OF pos assms, of buf e] by simp
qed

section \<open>The characters of a status line\<close>

lemma field_char_digit: "d < 10 \<Longrightarrow> field_char (digit_char d)"
  using digit_char_in [of d] by (auto simp: field_char_def)

lemma field_char_plain: "field_char c \<Longrightarrow> c \<noteq> NUL \<and> c \<noteq> CHR '' ''"
  by (auto simp: field_char_def NUL_def)

lemma field_no_NUL: "list_all field_char s \<Longrightarrow> NUL \<notin> set s"
  using field_char_plain by (auto simp: list_all_iff)

lemma field_no_space: "list_all field_char s \<Longrightarrow> CHR '' '' \<notin> set s"
  using field_char_plain by (auto simp: list_all_iff)

lemma show_int_field: "list_all field_char (show_int n)"
proof (induction n rule: show_int.induct)
  case (1 n)
  show ?case
  proof (cases "n < 10")
    case True
    then show ?thesis
      using field_char_digit [of n] by (subst show_int.simps) simp
  next
    case False
    have "field_char (digit_char (n mod 10))"
      by (rule field_char_digit) simp
    with False "1.IH" show ?thesis
      by (subst show_int.simps) simp
  qed
qed

lemma zero_pad_field: "list_all field_char s \<Longrightarrow> list_all field_char (zero_pad k s)"
proof -
  have z: "field_char CHR ''0''"
    by (simp add: field_char_def)
  assume "list_all field_char s"
  with z show ?thesis
    by (auto simp: zero_pad_def list_all_iff)
qed

lemma fmt_u_field: "list_all field_char (fmt_u k v)"
  by (simp add: fmt_u_def zero_pad_field show_int_field)

lemma fmt_fixed_field: "list_all field_char (fmt_fixed k s n)"
proof -
  have a: "list_all field_char (if s then ''-'' else [])"
    by (simp add: field_char_def)
  have b: "list_all field_char (if k = 0 then [] else ''.'' @ zero_pad k (show_int (n mod 10 ^ k)))"
    using zero_pad_field [OF show_int_field, of k "n mod 10 ^ k"] by (simp add: field_char_def)
  show ?thesis
    unfolding fmt_fixed_def using a b show_int_field [of "n div 10 ^ k"]
    by (simp only: list_all_append simp_thms)
qed

lemma fmt_f_field: "list_all field_char (fmt_f k d)"
proof (cases d)
  case (Finite s m e)
  then show ?thesis by (simp add: fmt_fixed_field)
next
  case (Infinity s)
  then show ?thesis by (simp add: field_char_def)
next
  case NaN
  then show ?thesis by (simp add: field_char_def)
qed

lemma status_line_no_NUL: "NUL \<notin> set (status_line h m s l1 l5 l15 b)"
  using field_no_NUL [OF fmt_u_field, of 2 "h mod 2 ^ 32"]
    field_no_NUL [OF fmt_u_field, of 2 "m mod 2 ^ 32"]
    field_no_NUL [OF fmt_u_field, of 2 "s mod 2 ^ 32"]
    field_no_NUL [OF fmt_f_field, of 2 l1] field_no_NUL [OF fmt_f_field, of 2 l5]
    field_no_NUL [OF fmt_f_field, of 2 l15] field_no_NUL [OF fmt_f_field, of 2 b]
  by (simp add: status_line_def NUL_def)

lemma last_field_append:
  "CHR '' '' \<notin> set f \<Longrightarrow> last_field (pre @ '' '' @ f) = f"
  by (simp add: last_field_def takeWhile_append)

lemma status_line_last_field: "last_field (status_line h m s l1 l5 l15 b) = fmt_f 2 b"
proof -
  define pre where "pre =
    fmt_u 2 (h mod 2 ^ 32) @ '':'' @ fmt_u 2 (m mod 2 ^ 32) @ '':'' @ fmt_u 2 (s mod 2 ^ 32)
      @ ''  '' @ fmt_f 2 l1 @ '' '' @ fmt_f 2 l5 @ '' '' @ fmt_f 2 l15 @ '' ''"
  have "status_line h m s l1 l5 l15 b = pre @ '' '' @ fmt_f 2 b"
    by (simp add: status_line_def pre_def)
  then have "last_field (status_line h m s l1 l5 l15 b) = last_field (pre @ '' '' @ fmt_f 2 b)"
    by (rule arg_cong)
  also have "\<dots> = fmt_f 2 b"
    by (rule last_field_append [OF field_no_space [OF fmt_f_field]])
  finally show ?thesis .
qed

section \<open>One iteration\<close>

lemma terminate_cond: "((128::size_t) \<le> word_of_int (snprintf_ret n)) = (128 \<le> n)"
proof (cases "n \<le> INT_MAX")
  case True
  then have lt: "n < 2 ^ 64"
    by (simp add: INT_MAX_def)
  have "word_of_int (snprintf_ret n) = (of_nat n :: size_t)"
    using True by (simp add: snprintf_ret_def)
  moreover have "unat (of_nat n :: size_t) = n"
    using lt by (simp add: unat_of_nat)
  ultimately show ?thesis
    by (simp add: word_le_nat_alt)
next
  case False
  then have "128 \<le> n"
    by (simp add: INT_MAX_def)
  moreover have "word_of_int (snprintf_ret n) = (- 1 :: size_t)"
    using False by (simp add: snprintf_ret_def)
  ultimately show ?thesis
    by simp
qed

lemma status_args_line:
  assumes "tm_hour p = fst (clock w)" "tm_min p = fst (snd (clock w))" "tm_sec p = snd (snd (clock w))"
    "avg1 p = g_avg1 w" "avg5 p = g_avg5 w" "avg15 p = g_avg15 w"
    "cstr (now p) = seen (f_engynow w)" "cstr (ful p) = seen (f_engyful w)"
  shows "format Lit status_fmt (status_args p) = Some (line_of w)"
  using assms by (simp add: status_args_def format_status line_of_def)

lemma nam_after_put:
  assumes "length buf = 128" and "NUL \<notin> set out"
  shows "cstr (take 127 out @ NUL # drop (Suc (min (length out) 127)) buf) = take 127 out"
    and "length (take 127 out @ NUL # drop (Suc (min (length out) 127)) buf) = 128"
proof -
  have "NUL \<notin> set (take 127 out)"
    using assms(2) by (meson in_set_takeD)
  then show "cstr (take 127 out @ NUL # drop (Suc (min (length out) 127)) buf) = take 127 out"
    by (simp add: cstr_append_NUL cstr_no_NUL)
  show "length (take 127 out @ NUL # drop (Suc (min (length out) 127)) buf) = 128"
    using assms(1) by (simp add: min_def)
qed

lemma iteration_ok:
  assumes l: "fault (f_loadavg w) = None" and n: "fault (f_engynow w) = None"
    and f: "fault (f_engyful w) = None"
  shows "\<exists>p'. iteration w p = Running p'
       \<and> xlog p' = xlog p @ [XStoreName (take 127 (line_of w)), XFlush]
       \<and> err_stream p' = err_stream p \<and> atexit_fns p' = atexit_fns p
       \<and> dpy_open p' = dpy_open p
       \<and> disp_hup p' = disp_hup p \<and> disp_int p' = disp_int p \<and> disp_term p' = disp_term p
       \<and> syscalls p' = syscalls p @ [(LOADAVG, 31, 0), (ENGYNOW, 31, 0), (ENGYFUL, 31, 0)]
       \<and> cstr (nam p') = take 127 (line_of w)
       \<and> length (nam p') = 128
       \<and> nam_stores p' = [0..<Suc (min (length (line_of w)) 127)]
            @ (if 128 \<le> length (line_of w) then [128] else [])
       \<and> fmt_ret p' = snprintf_ret (length (line_of w))"
proof -
  note c1 = cat32_ok [OF l, of "fit 32 (g_avg w)" "errno p", simplified]
  note c2 = cat32_ok [OF n, of "fit 32 (g_now w)" "errno p", simplified]
  note c3 = cat32_ok [OF f, of "fit 32 (g_ful w)" "errno p", simplified]
  have nn: "NUL \<notin> set (line_of w)"
    by (simp add: line_of_def status_line_no_NUL)
  have nn': "NUL \<notin> set (take 127 (line_of w))"
    using nn by (meson in_set_takeD)
  have beyond: "\<And>xs c. length xs \<le> 128 \<Longrightarrow> xs[128 := c] = (xs :: string)"
    by (rule list_update_beyond)
  have fm: "format Lit status_fmt
      [AInt (fst (clock w)), AInt (fst (snd (clock w))), AInt (snd (snd (clock w))),
       ADouble (g_avg1 w), ADouble (g_avg5 w), ADouble (g_avg15 w),
       ADouble (fdiv (atof (seen (f_engynow w))) (atof (seen (f_engyful w))))]
      = Some (line_of w)"
    by (simp add: format_status line_of_def)
  show ?thesis
    by (simp add: iteration_def loop_body_def s_locals_def s_time_def s_loadavg_def
        s_sscanf_def s_engynow_def s_engyful_def s_snprintf_def s_terminate_def s_store_def
        s_flush_def s_sleep_def check_read_def log_reads_def c1 c2 c3 sscanf_scan_fmt
        put_status_def snprintf_def snprintf_put_def status_args_def fm terminate_cond
        cstr_append_NUL cstr_no_NUL nn nn' beyond)
qed

section \<open>Termination of the process\<close>

lemma run_exitfns_fields:
  "xlog (run_exitfns fs q) = xlog q @ cleanup fs"
  "err_stream (run_exitfns fs q) = err_stream q"
  "syscalls (run_exitfns fs q) = syscalls q"
  "atexit_fns (run_exitfns fs q) = atexit_fns q"
proof (induction fs arbitrary: q)
  case Nil
  {
    case 1 show ?case by (simp add: cleanup_def)
  next
    case 2 show ?case by simp
  next
    case 3 show ?case by simp
  next
    case 4 show ?case by simp
  }
next
  case (Cons f fs)
  {
    case 1 show ?case using Cons(1) [of "onexit q"] by (cases f) (simp add: cleanup_def onexit_def)
  next
    case 2 show ?case using Cons(2) [of "onexit q"] by (cases f) (simp add: onexit_def)
  next
    case 3 show ?case using Cons(3) [of "onexit q"] by (cases f) (simp add: onexit_def)
  next
    case 4 show ?case using Cons(4) [of "onexit q"] by (cases f) (simp add: onexit_def)
  }
qed

lemma read_failed_exits:
  "\<exists>p'. read_failed w path p = Exited EXIT_FAILURE p'
     \<and> err_stream p' = err_stream p
          @ ''Failed to read from '' @ LQ @ path @ RQ @ '': '' @ strerror w (errno p) @ [CHR 0x0A]
     \<and> syscalls p' = syscalls p
     \<and> xlog p' = xlog p @ cleanup (atexit_fns p)
     \<and> atexit_fns p' = []"
  by (simp add: read_failed_def die_def format_read_fmt exit_proc_def run_exitfns_fields)

section \<open>The claims about \<open>cat\<close>\<close>

text \<open>
  C6.  A call of \<open>cat\<close> with capacity \<open>len > 0\<close> that succeeds has issued one
  \<open>pread\<close> of at most \<open>len - 1\<close> bytes at offset zero, whatever the file offset of
  the descriptor is; it returns the number of bytes read, these bytes are the front
  of the file and of the buffer, and the byte right after them is the terminator.
\<close>

theorem cat_reads_from_start:
  assumes "0 < len" and "length buf = unat len" and "0 \<le> ret (cat fd buf len e0)"
  shows "preads (cat fd buf len e0) = [(unat len - 1, 0)]
     \<and> nat (ret (cat fd buf len e0)) \<le> unat len - 1
     \<and> take (nat (ret (cat fd buf len e0))) (buf_after (cat fd buf len e0))
         = take (nat (ret (cat fd buf len e0))) (content fd)
     \<and> ret (cat fd buf len e0) = int (min (min (unat len - 1) (short fd)) (length (content fd)))
     \<and> buf_after (cat fd buf len e0) ! nat (ret (cat fd buf len e0)) = NUL
     \<and> length (buf_after (cat fd buf len e0)) = unat len
     \<and> cstr (buf_after (cat fd buf len e0))
         = cstr (take (nat (ret (cat fd buf len e0))) (content fd))
     \<and> cat (fd\<lparr>pos := k\<rparr>) buf len e0 = cat fd buf len e0"
proof -
  from assms(1) have pos: "\<not> len \<le> 0"
    by (simp add: word_le_0_iff)
  with assms(3) have ok: "fault fd = None"
    using cat_ret_neg [OF pos, of fd buf e0] by auto
  note p = cat_ok_props [OF pos ok assms(2), of e0]
  have gen: "\<And>j (xs :: string). take (min j (length xs)) xs = take j xs"
    by (simp add: min_def)
  have tk: "take (nat (ret (cat fd buf len e0))) (content fd)
      = take (min (unat len - 1) (short fd)) (content fd)"
    unfolding p(1) nat_int by (rule gen)
  have c7: "cstr (buf_after (cat fd buf len e0))
      = cstr (take (nat (ret (cat fd buf len e0))) (content fd))"
    unfolding tk by (rule p(8))
  from p(3) p(4) p(5) p(1) p(6) p(7) c7 cat_ignores_pos [of k fd buf len e0]
  show ?thesis by blast
qed

theorem cat_reads_from_start_witness:
  "cstr (buf_after (cat \<lparr>content = ''5000'', pos = 3, fault = None, short = 4096\<rparr>
       (replicate 32 CHR ''x'') 32 0)) = ''5000''
   \<and> ret (cat \<lparr>content = ''5000'', pos = 3, fault = None, short = 4096\<rparr>
       (replicate 32 CHR ''x'') 32 0) = 4"
proof -
  let ?fd = "\<lparr>content = ''5000'', pos = 3, fault = None, short = 4096\<rparr>"
  have h1: "(0::size_t) < 32" by simp
  have h2: "length (replicate 32 CHR ''x'') = unat (32::size_t)" by simp
  have h3: "0 \<le> ret (cat ?fd (replicate 32 CHR ''x'') 32 0)"
    by (simp add: cat_def pread_def Let_def)
  show ?thesis
    using cat_reads_from_start [OF h1 h2 h3, of 0]
    by (simp add: cstr_def NUL_def)
qed

text \<open>
  C7.  With capacity zero \<open>cat\<close> fails: it returns \<open>-1\<close>, sets \<open>errno\<close> to
  \<open>EINVAL\<close>, issues no read and leaves the buffer as it was.
\<close>

theorem cat_zero_len:
  "cat fd buf 0 e0 =
     \<lparr>ret = - 1, errno_after = EINVAL, buf_after = buf,
      filled = [], stores = [], preads = []\<rparr>"
  by (simp add: cat_def)

text \<open>
  C9.  When the read under a call with \<open>len > 0\<close> fails, \<open>cat\<close> returns the
  negative value, stores no terminator and writes nothing: the buffer is what it
  was, so a buffer without a terminator before the call has none after it.
\<close>

theorem cat_error_path_no_store:
  assumes "0 < len" and "ret (cat fd buf len e0) < 0"
  shows "stores (cat fd buf len e0) = []
     \<and> filled (cat fd buf len e0) = []
     \<and> buf_after (cat fd buf len e0) = buf
     \<and> (NUL \<in> set (buf_after (cat fd buf len e0))) = (NUL \<in> set buf)"
proof -
  from assms(1) have pos: "\<not> len \<le> 0"
    by (simp add: word_le_0_iff)
  with assms(2) obtain e where "fault fd = Some e"
    using cat_ret_neg [OF pos, of fd buf e0] by auto
  then show ?thesis
    by (simp add: cat_fail [OF pos])
qed

theorem cat_error_path_no_store_witness:
  "buf_after (cat \<lparr>content = ''5000'', pos = 0, fault = Some 5, short = 4096\<rparr>
       (replicate 32 CHR ''x'') 32 0) = replicate 32 CHR ''x''
   \<and> NUL \<notin> set (buf_after (cat \<lparr>content = ''5000'', pos = 0, fault = Some 5, short = 4096\<rparr>
       (replicate 32 CHR ''x'') 32 0))"
proof -
  let ?fd = "\<lparr>content = ''5000'', pos = 0, fault = Some 5, short = 4096\<rparr>"
  have h1: "(0::size_t) < 32" by simp
  have h2: "ret (cat ?fd (replicate 32 CHR ''x'') 32 0) < 0"
    by (simp add: cat_def pread_def)
  show ?thesis
    using cat_error_path_no_store [OF h1 h2]
    by (simp add: NUL_def)
qed

text \<open>
  C10.  With \<open>len > 0\<close> every index of the buffer that a call writes is below
  \<open>len\<close>: the data go to indices below \<open>len - 1\<close>, and the terminator, when one
  is stored, goes to index \<open>ret\<close> with \<open>0 \<le> ret \<le> len - 1\<close>.
\<close>

theorem cat_writes_in_bounds:
  assumes "0 < len"
  shows "(\<forall>i \<in> set (filled (cat fd buf len e0)). i < unat len - 1)
     \<and> (\<forall>i \<in> set (stores (cat fd buf len e0)).
           int i = ret (cat fd buf len e0) \<and> i \<le> unat len - 1 \<and> i < unat len)
     \<and> (0 \<le> ret (cat fd buf len e0) \<longrightarrow>
           stores (cat fd buf len e0) = [nat (ret (cat fd buf len e0))])"
proof -
  from assms have pos: "\<not> len \<le> 0"
    by (simp add: word_le_0_iff)
  show ?thesis
  proof (cases "fault fd")
    case None
    have "min (unat len - 1) (short fd) \<le> unat len - 1"
      by simp
    then show ?thesis
      using word_pos_unat [OF pos] by (auto simp: cat_ok [OF pos None] Let_def)
  next
    case (Some e)
    then show ?thesis
      by (simp add: cat_fail [OF pos])
  qed
qed

theorem cat_writes_in_bounds_witness:
  "stores (cat \<lparr>content = replicate 100 CHR ''7'', pos = 0, fault = None, short = 4096\<rparr>
       (replicate 32 CHR ''x'') 32 0) = [31]
   \<and> filled (cat \<lparr>content = replicate 100 CHR ''7'', pos = 0, fault = None, short = 4096\<rparr>
       (replicate 32 CHR ''x'') 32 0) = [0..<31]"
proof -
  have h: "(0::size_t) < 32" by simp
  show ?thesis
    using cat_writes_in_bounds [OF h,
      of "\<lparr>content = replicate 100 CHR ''7'', pos = 0, fault = None, short = 4096\<rparr>"
         "replicate 32 CHR ''x''" 0]
    by (simp add: cat_def pread_def Let_def)
qed

lemmas stmt_defs = iteration_def loop_body_def s_locals_def s_time_def s_loadavg_def
  s_sscanf_def s_engynow_def s_engyful_def s_snprintf_def s_terminate_def s_store_def
  s_flush_def s_sleep_def check_read_def log_reads_def

lemmas die_defs = read_failed_def die_def format_read_fmt exit_proc_def run_exitfns_fields

lemma iteration_fail_loadavg:
  assumes "fault (f_loadavg w) = Some e"
  shows "\<exists>p'. iteration w p = Exited EXIT_FAILURE p'
     \<and> err_stream p' = err_stream p
          @ ''Failed to read from '' @ LQ @ LOADAVG @ RQ @ '': '' @ strerror w e @ [CHR 0x0A]
     \<and> syscalls p' = syscalls p @ [(LOADAVG, 31, 0)]
     \<and> xlog p' = xlog p @ cleanup (atexit_fns p)"
  by (simp add: stmt_defs die_defs cat32_fail [OF assms])

lemma iteration_fail_engynow:
  assumes l: "fault (f_loadavg w) = None" and "fault (f_engynow w) = Some e"
  shows "\<exists>p'. iteration w p = Exited EXIT_FAILURE p'
     \<and> err_stream p' = err_stream p
          @ ''Failed to read from '' @ LQ @ ENGYNOW @ RQ @ '': '' @ strerror w e @ [CHR 0x0A]
     \<and> syscalls p' = syscalls p @ [(LOADAVG, 31, 0), (ENGYNOW, 31, 0)]
     \<and> xlog p' = xlog p @ cleanup (atexit_fns p)"
proof -
  note c1 = cat32_ok [OF l, of "fit 32 (g_avg w)" "errno p", simplified]
  show ?thesis
    by (simp add: stmt_defs die_defs c1 sscanf_scan_fmt cat32_fail [OF assms(2)])
qed

lemma iteration_fail_engyful:
  assumes l: "fault (f_loadavg w) = None" and n: "fault (f_engynow w) = None"
    and "fault (f_engyful w) = Some e"
  shows "\<exists>p'. iteration w p = Exited EXIT_FAILURE p'
     \<and> err_stream p' = err_stream p
          @ ''Failed to read from '' @ LQ @ ENGYFUL @ RQ @ '': '' @ strerror w e @ [CHR 0x0A]
     \<and> syscalls p' = syscalls p @ [(LOADAVG, 31, 0), (ENGYNOW, 31, 0), (ENGYFUL, 31, 0)]
     \<and> xlog p' = xlog p @ cleanup (atexit_fns p)"
proof -
  note c1 = cat32_ok [OF l, of "fit 32 (g_avg w)" "errno p", simplified]
  note c2 = cat32_ok [OF n, of "fit 32 (g_now w)" "errno p", simplified]
  show ?thesis
    by (simp add: stmt_defs die_defs c1 c2 sscanf_scan_fmt cat32_fail [OF assms(3)])
qed

text \<open>
  C4.  When a read of one of the three files fails in an iteration, the iteration
  ends the process with the status \<open>EXIT_FAILURE\<close>, which is not zero.  It has
  written to standard error the message that names the path of the file and the
  error text of \<open>errno\<close>, it has issued exactly one read of that file and none
  after it, and the only requests sent to the display are those of the exit handlers.
\<close>

theorem read_failure_is_fatal:
  "EXIT_FAILURE \<noteq> 0
   \<and> (fault (f_loadavg w) = Some e \<longrightarrow>
        (\<exists>p'. iteration w p = Exited EXIT_FAILURE p'
           \<and> err_stream p' = err_stream p
                @ ''Failed to read from '' @ LQ @ LOADAVG @ RQ @ '': '' @ strerror w e @ [CHR 0x0A]
           \<and> syscalls p' = syscalls p @ [(LOADAVG, 31, 0)]
           \<and> xlog p' = xlog p @ cleanup (atexit_fns p)))
   \<and> (fault (f_loadavg w) = None \<and> fault (f_engynow w) = Some e \<longrightarrow>
        (\<exists>p'. iteration w p = Exited EXIT_FAILURE p'
           \<and> err_stream p' = err_stream p
                @ ''Failed to read from '' @ LQ @ ENGYNOW @ RQ @ '': '' @ strerror w e @ [CHR 0x0A]
           \<and> syscalls p' = syscalls p @ [(LOADAVG, 31, 0), (ENGYNOW, 31, 0)]
           \<and> xlog p' = xlog p @ cleanup (atexit_fns p)))
   \<and> (fault (f_loadavg w) = None \<and> fault (f_engynow w) = None
        \<and> fault (f_engyful w) = Some e \<longrightarrow>
        (\<exists>p'. iteration w p = Exited EXIT_FAILURE p'
           \<and> err_stream p' = err_stream p
                @ ''Failed to read from '' @ LQ @ ENGYFUL @ RQ @ '': '' @ strerror w e @ [CHR 0x0A]
           \<and> syscalls p' = syscalls p @ [(LOADAVG, 31, 0), (ENGYNOW, 31, 0), (ENGYFUL, 31, 0)]
           \<and> xlog p' = xlog p @ cleanup (atexit_fns p)))"
  using iteration_fail_loadavg [of w e p] iteration_fail_engynow [of w e p]
    iteration_fail_engyful [of w e p]
  by (simp add: EXIT_FAILURE_def)

theorem read_failure_is_fatal_witness:
  "\<exists>p'. iteration failing_world (proc_start\<lparr>atexit_fns := [Fn_onexit]\<rparr>) = Exited 1 p'
     \<and> err_stream p' = ''Failed to read from '' @ LQ
          @ ''/sys/class/power_supply/BAT0/energy_full'' @ RQ @ '': Input/output error''
          @ [CHR 0x0A]
     \<and> syscalls p' = [(''/proc/loadavg'', 31, 0),
          (''/sys/class/power_supply/BAT0/energy_now'', 31, 0),
          (''/sys/class/power_supply/BAT0/energy_full'', 31, 0)]
     \<and> xlog p' = [XStoreName [], XCloseDisplay]"
  using read_failure_is_fatal [of failing_world 5 "proc_start\<lparr>atexit_fns := [Fn_onexit]\<rparr>"]
  by (simp add: failing_world_def example_world_def proc_start_def EXIT_FAILURE_def
      LOADAVG_def ENGYNOW_def ENGYFUL_def cleanup_def)

section \<open>The load averages\<close>

text \<open>
  The format of the program's \<open>sscanf\<close> call stops at its first directive, for every
  input: nothing is stored, and \<open>avg1\<close>, \<open>avg5\<close>, \<open>avg15\<close> keep the values they
  had.  With \<open>%lf\<close> in place of \<open>%.2f\<close> the same input yields the three numbers.
\<close>

lemma sscanf_stores_nothing: "fst (sscanf inp scan_fmt) = []"
  by (simp add: sscanf_scan_fmt)

lemma sscanf_lf_example:
  "sscanf (''0.50 0.75 1.20 1/123 4567'' @ [CHR 0x0A]) ''%lf %lf %lf''
   = ([(TDouble, Finite False 4503599627370496 (- 53)),
       (TDouble, Finite False 6755399441055744 (- 53)),
       (TDouble, Finite False 5404319552844595 (- 52))], SEnd)"
  by (simp add: ev_str ev_num)

lemma line_ignores_loadavg: "line_of (w\<lparr>f_loadavg := fd\<rparr>) = line_of w"
  by (simp add: line_of_def)

text \<open>
  C1.  In the end-to-end example (\<open>/proc/loadavg\<close> holds
  \<open>0.50 0.75 1.20 ...\<close>, the energy files hold \<open>5000\<close> and \<open>10000\<close>, the time is
  07:09:03) the name that the first iteration gives to the root window is
  \<open>07:09:03  0.00 0.00 0.00  0.50\<close> when the three variables happened to hold
  zeros: the load averages of the file are not in it.
\<close>

theorem example_shows_no_load_average:
  "\<exists>p. main example_world [example_world] = Running p
     \<and> xlog p = [XStoreName ''07:09:03  0.00 0.00 0.00  0.50'', XFlush]"
  by (simp add: example_world_def ev_proc ev_str ev_num)

section \<open>Truncation\<close>

lemma show_int_length: "10 ^ k \<le> n \<Longrightarrow> k < length (show_int n)"
proof (induction k arbitrary: n)
  case 0
  then show ?case
    using show_int_ne [of n] by (cases "show_int n") simp_all
next
  case (Suc k)
  have pr: "10 * 10 ^ k \<le> n"
    using Suc.prems by simp
  have "(0::int) < 10 ^ k"
    by simp
  with pr have big: "\<not> n < 10"
    by linarith
  have "10 ^ k \<le> n div 10"
    using Suc.prems by (simp add: zdiv_mono1 [of "10 * 10 ^ k" n 10, simplified])
  then have "k < length (show_int (n div 10))"
    by (rule Suc.IH)
  then show ?case
    using big by (subst show_int.simps) simp
qed

lemma long_world_line: "128 \<le> length (line_of long_world)"
proof -
  have "(10::int) ^ 130 \<le> 2 ^ 432"
    by simp
  then have "130 < length (show_int (2 ^ 432))"
    by (rule show_int_length)
  moreover have "rne_frac (shl (1 * 10 ^ 2) 432) (shl 1 (- 432)) div 10 ^ 2 = 2 ^ 432"
    by (simp add: rne_frac_def rne_pick_def shl_def)
  ultimately have "130 < length (fmt_f 2 (Finite False 1 432))"
    by (simp add: fmt_fixed_def)
  then show ?thesis
    by (simp add: line_of_def long_world_def example_world_def status_line_def)
qed

text \<open>
  C2.  When the formatted line does not fit the 128 bytes of \<open>nam\<close>, the buffer
  holds its first 127 bytes and a terminator after \<open>snprintf\<close>; the statement that
  follows then stores to index 128, which is outside the array.
\<close>

theorem truncation_stores_out_of_bounds:
  assumes "fault (f_loadavg w) = None" and "fault (f_engynow w) = None"
    and "fault (f_engyful w) = None" and "128 \<le> length (line_of w)"
  shows "\<exists>p'. iteration w p = Running p'
     \<and> cstr (nam p') = take 127 (line_of w) \<and> length (cstr (nam p')) = 127
     \<and> length (nam p') = 128
     \<and> nam_stores p' = [0..<128] @ [128]
     \<and> \<not> list_all (\<lambda>i. i < length (nam p')) (nam_stores p')"
proof -
  obtain p' where p': "iteration w p = Running p'"
    "cstr (nam p') = take 127 (line_of w)" "length (nam p') = 128"
    "nam_stores p' = [0..<Suc (min (length (line_of w)) 127)]
        @ (if 128 \<le> length (line_of w) then [128] else [])"
    using iteration_ok [OF assms(1-3), of p] by blast
  have m: "min (length (line_of w)) 127 = 127"
    using assms(4) by simp
  have "nam_stores p' = [0..<128] @ [128]"
    using p'(4) assms(4) by (simp only: m if_True) simp
  moreover have "length (cstr (nam p')) = 127"
    using assms(4) by (simp add: p'(2))
  ultimately show ?thesis
    using p'(1-3) by auto
qed

theorem truncation_stores_out_of_bounds_witness:
  "\<exists>p'. iteration long_world proc_start = Running p'
     \<and> length (nam p') = 128 \<and> nam_stores p' = [0..<128] @ [128]"
proof -
  have a: "fault (f_loadavg long_world) = None" "fault (f_engynow long_world) = None"
    "fault (f_engyful long_world) = None"
    by (simp_all add: long_world_def example_world_def)
  show ?thesis
    using truncation_stores_out_of_bounds [OF a long_world_line, of proc_start] by blast
qed

section \<open>An empty battery\<close>

lemma fdiv_zero: "\<not> is_finite (fdiv x (Finite s 0 e))"
  by (cases x) simp_all

text \<open>
  C8.  When the full-energy value parsed is zero, the quotient handed to the
  formatting is not finite (an infinity or a NaN), the iteration formats it as
  the last field, names the root window and flushes, and the loop goes on with
  the next iteration: the process does not exit.
\<close>

theorem zero_full_energy_not_fatal:
  assumes "fault (f_loadavg w) = None" and "fault (f_engynow w) = None"
    and "fault (f_engyful w) = None" and "atof (seen (f_engyful w)) = Finite s 0 e"
  shows "\<not> is_finite (fdiv (atof (seen (f_engynow w))) (atof (seen (f_engyful w))))
     \<and> last_field (line_of w)
         = fmt_f 2 (fdiv (atof (seen (f_engynow w))) (atof (seen (f_engyful w))))
     \<and> (\<exists>p'. iteration w p = Running p'
           \<and> xlog p' = xlog p @ [XStoreName (take 127 (line_of w)), XFlush]
           \<and> err_stream p' = err_stream p
           \<and> run_loop (w # ws) p = run_loop ws p')"
proof -
  obtain p' where p': "iteration w p = Running p'"
    "xlog p' = xlog p @ [XStoreName (take 127 (line_of w)), XFlush]"
    "err_stream p' = err_stream p"
    using iteration_ok [OF assms(1-3), of p] by blast
  have "run_loop (w # ws) p = run_loop ws p'"
    by (simp add: p'(1))
  with p' show ?thesis
    by (auto simp: assms(4) fdiv_zero line_of_def status_line_last_field)
qed

theorem zero_full_energy_not_fatal_witness:
  "last_field (line_of empty_battery_world) = ''inf''
   \<and> (\<exists>p'. iteration empty_battery_world proc_start = Running p'
         \<and> xlog p' = [XStoreName ''07:09:03  0.00 0.00 0.00  inf'', XFlush])"
proof -
  have a: "fault (f_loadavg empty_battery_world) = None"
    "fault (f_engynow empty_battery_world) = None"
    "fault (f_engyful empty_battery_world) = None"
    by (simp_all add: empty_battery_world_def example_world_def)
  have z: "atof (seen (f_engyful empty_battery_world)) = Finite False 0 0"
    by (simp add: empty_battery_world_def example_world_def seen_def ev_str ev_num)
  have n: "atof (seen (f_engynow empty_battery_world)) = Finite False 5497558138880000 (- 40)"
    by (simp add: empty_battery_world_def example_world_def seen_def ev_str ev_num)
  have l: "line_of empty_battery_world = ''07:09:03  0.00 0.00 0.00  inf''"
    unfolding line_of_def z n
    by (simp add: empty_battery_world_def example_world_def status_line_def ev_num)
  have f: "fmt_f 2 (fdiv (Finite False 5497558138880000 (- 40)) (Finite False 0 0)) = ''inf''"
    by simp
  obtain p' where p': "iteration empty_battery_world proc_start = Running p'"
    "xlog p' = xlog proc_start @ [XStoreName (take 127 (line_of empty_battery_world)), XFlush]"
    "last_field (line_of empty_battery_world) = ''inf''"
    using zero_full_energy_not_fatal [OF a z, of proc_start "[]"] unfolding z n f by blast
  have "xlog p' = [XStoreName ''07:09:03  0.00 0.00 0.00  inf'', XFlush]"
    unfolding p'(2) l by (simp add: proc_start_def)
  with p'(1, 3) show ?thesis by blast
qed

section \<open>Signals\<close>










lemma onexit_two_statements: "onexit p = onexit_close (onexit_name p)"
  by (simp add: onexit_def onexit_name_def onexit_close_def)

lemma exit_points_last: "last (exit_points fs p) = run_exitfns fs p"
proof (induction fs arbitrary: p)
  case Nil
  then show ?case by simp
next
  case (Cons f fs)
  have ne: "exit_points fs (onexit_close (onexit_name p)) \<noteq> []"
    by (cases fs) (simp, metis exit_points.simps(2) exitfn.exhaust list.distinct(1))
  show ?case
    using Cons [of "onexit p"] ne by (cases f) (simp add: onexit_two_statements)
qed

lemma exit_proc_points:
  "exit_proc st p = Exited st (last (exit_points (atexit_fns p) (exit_begin p)))"
  by (simp add: exit_proc_def exit_points_last exit_begin_def)




section \<open>Rounding\<close>













section \<open>Reading a field back\<close>















section \<open>The value of a double\<close>








section \<open>The doubles that \<open>atof\<close> returns\<close>






section \<open>The accuracy of a rounding to double precision\<close>















section \<open>The quotient of two doubles\<close>


lemma fdiv_pos:
  "n \<noteq> 0 \<Longrightarrow> fdiv (Finite s m e) (Finite False n f)
     = rnd64 s (shl m (e - f)) (shl n (- (e - f)))"
  by simp




section \<open>The battery fraction\<close>












end
